theory Spec2Isabelle
  imports Main "HOL-Library.Word"
begin

section \<open>Artillery Shells: the window procedure and the message loop of main.cpp\<close>

text \<open>
  The program is one file, \<^verbatim>\<open>src/ArtilleryShells/src/main.cpp\<close>, with two functions:
  the entry point \<^verbatim>\<open>wWinMain\<close> (window-class registration, window creation, the message loop)
  and the window procedure \<^verbatim>\<open>WndProc\<close>. Both talk to the Win32 API, which is not part of the
  program. The API is modelled as an explicit world that is passed through every call: the
  calling thread's message queue, the messages that will be posted to it later, and a log of the
  API calls made so far. What the system answers to \<^verbatim>\<open>RegisterClassEx\<close>,
  \<^verbatim>\<open>CreateWindowEx\<close> and \<^verbatim>\<open>DefWindowProc\<close> is a parameter.
\<close>

subsection \<open>Win32 data types and constants\<close>

type_synonym HWND = "64 word"
type_synonym UINT = "32 word"
type_synonym WPARAM = "64 word"
type_synonym LPARAM = "64 word"
type_synonym LRESULT = "64 word"
type_synonym ATOM = "16 word"
type_synonym cint = "32 word"

text \<open>
  The \<^verbatim>\<open>MSG\<close> structure. Its fields \<^verbatim>\<open>time\<close> and \<^verbatim>\<open>pt\<close> are never read by the program and
  are left out. Handles and the two parameter words are pointer sized; their width plays no role
  in the program.
\<close>

record MSG =
  hwnd :: HWND
  message :: UINT
  wParam :: WPARAM
  lParam :: LPARAM

text \<open>Message identifiers, with their values in \<^verbatim>\<open>WinUser.h\<close>.\<close>

definition WM_NULL :: UINT where
  "WM_NULL = 0x0000"

definition WM_DESTROY :: UINT where
  "WM_DESTROY = 0x0002"

definition WM_QUIT :: UINT where
  "WM_QUIT = 0x0012"

text \<open>The last argument of \<^verbatim>\<open>PeekMessage\<close>.\<close>

datatype remove_flag = PM_NOREMOVE | PM_REMOVE

subsection \<open>The world outside the program\<close>

text \<open>
  One entry per API call of the program, in the order of the calls. The \<^verbatim>\<open>else\<close> branch of the
  loop (lines 108 to 117) makes no call: its body in the source consists of comments only, among
  them the commented-out calls \<^verbatim>\<open>renderer->Update()\<close>, \<^verbatim>\<open>renderer->Render()\<close> and
  \<^verbatim>\<open>deviceResources->Present()\<close>.
\<close>

datatype event =
    CallRegisterClassEx
  | CallCreateWindowEx
  | CallShowWindow HWND cint
  | CallPeekMessage remove_flag bool
  | CallTranslateMessage MSG
  | CallDispatchMessage MSG
  | CallPostQuitMessage cint
  | CallDefWindowProc HWND UINT WPARAM LPARAM

text \<open>
  \<open>queue\<close> holds the pending messages of the thread, oldest first. \<open>arrivals\<close> is what other
  parties will post: its \<open>i\<close>-th element is the batch of messages that reach the queue between
  the \<open>i\<close>-th call of \<^verbatim>\<open>PeekMessage\<close> and the next one (an empty batch when nothing is
  posted in between).
\<close>

record world =
  queue :: "MSG list"
  arrivals :: "MSG list list"
  trace :: "event list"

text \<open>The answers of the system that the program only receives.\<close>

record os_env =
  registerClassResult :: ATOM
  createWindowResult :: HWND
  defWindowProcResult :: "HWND \<Rightarrow> UINT \<Rightarrow> WPARAM \<Rightarrow> LPARAM \<Rightarrow> LRESULT"

definition record_event :: "event \<Rightarrow> world \<Rightarrow> world" where
  "record_event e w = w\<lparr>trace := trace w @ [e]\<rparr>"

definition deliver :: "world \<Rightarrow> world" where
  "deliver w =
     (case arrivals w of
        [] \<Rightarrow> w
      | b # bs \<Rightarrow> w\<lparr>queue := queue w @ b, arrivals := bs\<rparr>)"

text \<open>
  \<^verbatim>\<open>PeekMessage(&msg, NULL, 0, 0, flag)\<close>: no window filter and no message filter, so the oldest
  pending message is the one found. The call returns at once. When the queue is empty it returns
  \<^verbatim>\<open>FALSE\<close> and leaves \<^verbatim>\<open>*lpMsg\<close> as it was; otherwise it returns \<^verbatim>\<open>TRUE\<close>, copies the message into
  \<^verbatim>\<open>*lpMsg\<close> and, with \<^verbatim>\<open>PM_REMOVE\<close>, takes it out of the queue.
\<close>

definition PeekMessage :: "MSG \<Rightarrow> remove_flag \<Rightarrow> world \<Rightarrow> bool \<times> MSG \<times> world" where
  "PeekMessage lpMsg flag w =
     (case queue w of
        [] \<Rightarrow> (False, lpMsg, deliver (record_event (CallPeekMessage flag False) w))
      | m # ms \<Rightarrow>
          (True, m,
           deliver (record_event (CallPeekMessage flag True)
             (if flag = PM_REMOVE then w\<lparr>queue := ms\<rparr> else w))))"

text \<open>
  \<^verbatim>\<open>PostQuitMessage(nExitCode)\<close> posts a \<^verbatim>\<open>WM_QUIT\<close> message, addressed to no window and carrying
  the exit code in \<^verbatim>\<open>wParam\<close>, to the queue of the calling thread.
\<close>

definition quit_msg :: "cint \<Rightarrow> MSG" where
  "quit_msg nExitCode = \<lparr>hwnd = 0, message = WM_QUIT, wParam = scast nExitCode, lParam = 0\<rparr>"

definition PostQuitMessage :: "cint \<Rightarrow> world \<Rightarrow> world" where
  "PostQuitMessage nExitCode w =
     record_event (CallPostQuitMessage nExitCode) (w\<lparr>queue := queue w @ [quit_msg nExitCode]\<rparr>)"

text \<open>
  The remaining calls are recorded and answered, and have no effect on the queue in this model:
  the character messages that \<^verbatim>\<open>TranslateMessage\<close> posts for key strokes, and what the system
  itself sends to the window procedure inside \<^verbatim>\<open>CreateWindowEx\<close>, \<^verbatim>\<open>ShowWindow\<close> and
  \<^verbatim>\<open>DefWindowProc\<close>, are left out.
\<close>

definition DefWindowProc ::
  "os_env \<Rightarrow> HWND \<Rightarrow> UINT \<Rightarrow> WPARAM \<Rightarrow> LPARAM \<Rightarrow> world \<Rightarrow> LRESULT \<times> world" where
  "DefWindowProc env h uMsg wp lp w =
     (defWindowProcResult env h uMsg wp lp, record_event (CallDefWindowProc h uMsg wp lp) w)"

definition TranslateMessage :: "MSG \<Rightarrow> world \<Rightarrow> world" where
  "TranslateMessage m w = record_event (CallTranslateMessage m) w"

definition RegisterClassEx :: "os_env \<Rightarrow> world \<Rightarrow> ATOM \<times> world" where
  "RegisterClassEx env w = (registerClassResult env, record_event CallRegisterClassEx w)"

definition CreateWindowEx :: "os_env \<Rightarrow> world \<Rightarrow> HWND \<times> world" where
  "CreateWindowEx env w = (createWindowResult env, record_event CallCreateWindowEx w)"

definition ShowWindow :: "HWND \<Rightarrow> cint \<Rightarrow> world \<Rightarrow> world" where
  "ShowWindow h nCmdShow w = record_event (CallShowWindow h nCmdShow) w"

subsection \<open>The window procedure (lines 138 to 153)\<close>

definition WndProc ::
  "os_env \<Rightarrow> HWND \<Rightarrow> UINT \<Rightarrow> WPARAM \<Rightarrow> LPARAM \<Rightarrow> world \<Rightarrow> LRESULT \<times> world" where
  "WndProc env h uMsg wp lp w =
     (let w1 = (if uMsg = WM_DESTROY then PostQuitMessage 0 w else w)
      in DefWindowProc env h uMsg wp lp w1)"

text \<open>
  \<^verbatim>\<open>DispatchMessage(&msg)\<close> hands the message to the window procedure of the window it is
  addressed to. The program registers one window class, with \<^verbatim>\<open>wc.lpfnWndProc = WndProc\<close>
  (line 51), and creates one window of it, so that procedure is \<open>WndProc\<close>. A message addressed
  to no window (\<open>hwnd = 0\<close>) reaches no window procedure. The value \<^verbatim>\<open>DispatchMessage\<close> returns is
  not used by the program.
\<close>

definition DispatchMessage :: "os_env \<Rightarrow> MSG \<Rightarrow> world \<Rightarrow> world" where
  "DispatchMessage env m w =
     (let w1 = record_event (CallDispatchMessage m) w
      in if hwnd m = 0 then w1
         else snd (WndProc env (hwnd m) (message m) (wParam m) (lParam m) w1))"

subsection \<open>The entry point (lines 29 to 121)\<close>

text \<open>The local variables of the loop (lines 93 and 94), with the world they run in.\<close>

record loop_state =
  bGotMsg :: bool
  msg :: MSG
  wld :: world

text \<open>One execution of the body of the \<^verbatim>\<open>while\<close> loop (lines 99 to 117).\<close>

definition loop_body :: "os_env \<Rightarrow> loop_state \<Rightarrow> loop_state" where
  "loop_body env s =
     (case PeekMessage (msg s) PM_REMOVE (wld s) of
        (got, m, w1) \<Rightarrow>
          if got
          then \<lparr>bGotMsg = got, msg = m, wld = DispatchMessage env m (TranslateMessage m w1)\<rparr>
          else \<lparr>bGotMsg = got, msg = m, wld = w1\<rparr>)"

text \<open>
  The loop of line 98. It runs for as long as no \<^verbatim>\<open>WM_QUIT\<close> has been retrieved, possibly for
  ever: \<open>None\<close> is the run that never leaves the loop.
\<close>

partial_function (option) wWinMain_loop :: "os_env \<Rightarrow> loop_state \<Rightarrow> loop_state option" where
  "wWinMain_loop env s =
     (if message (msg s) \<noteq> WM_QUIT then wWinMain_loop env (loop_body env s) else Some s)"

declare wWinMain_loop.simps [code]

text \<open>
  Lines 43 to 96: everything before the loop. \<open>Inl\<close> is an early \<^verbatim>\<open>return\<close> with its status,
  \<open>Inr\<close> the state in which the loop is entered. The contents of the window class and the
  arguments of \<^verbatim>\<open>CreateWindowEx\<close> do not influence the control flow and are not modelled.
  \<open>bGotMsg0\<close> and \<open>msg0\<close> are the indeterminate initial contents of the two locals, which are
  declared without an initialiser; only \<^verbatim>\<open>msg.message\<close> is assigned (line 95).
\<close>

definition wWinMain_init ::
  "os_env \<Rightarrow> cint \<Rightarrow> bool \<Rightarrow> MSG \<Rightarrow> world \<Rightarrow> (cint \<times> world) + loop_state" where
  "wWinMain_init env nCmdShow bGotMsg0 msg0 w0 =
     (case RegisterClassEx env w0 of
        (windowClassHandle, w1) \<Rightarrow>
          if windowClassHandle = 0 then Inl (- 1, w1)
          else
            (case CreateWindowEx env w1 of
               (mainWindowHandle, w2) \<Rightarrow>
                 if mainWindowHandle = 0 then Inl (- 1, w2)
                 else
                   (let w3 = ShowWindow mainWindowHandle nCmdShow w2;
                        msg1 = msg0\<lparr>message := WM_NULL\<rparr>
                    in case PeekMessage msg1 PM_NOREMOVE w3 of
                         (r, msg2, w4) \<Rightarrow> Inr \<lparr>bGotMsg = bGotMsg0, msg = msg2, wld = w4\<rparr>)))"

text \<open>The whole entry point: the status it returns and the world it leaves behind.\<close>

definition wWinMain ::
  "os_env \<Rightarrow> cint \<Rightarrow> bool \<Rightarrow> MSG \<Rightarrow> world \<Rightarrow> (cint \<times> world) option" where
  "wWinMain env nCmdShow bGotMsg0 msg0 w0 =
     (case wWinMain_init env nCmdShow bGotMsg0 msg0 w0 of
        Inl r \<Rightarrow> Some r
      | Inr s0 \<Rightarrow>
          (case wWinMain_loop env s0 of
             None \<Rightarrow> None
           | Some s \<Rightarrow> Some (0, wld s)))"

subsection \<open>Reading the log\<close>

primrec dispatched :: "event list \<Rightarrow> MSG list" where
  "dispatched [] = []"
| "dispatched (e # es) =
     (case e of CallDispatchMessage m \<Rightarrow> m # dispatched es | _ \<Rightarrow> dispatched es)"

primrec translated :: "event list \<Rightarrow> MSG list" where
  "translated [] = []"
| "translated (e # es) =
     (case e of CallTranslateMessage m \<Rightarrow> m # translated es | _ \<Rightarrow> translated es)"

text \<open>
  The iterations that found the queue empty, and so took the \<^verbatim>\<open>else\<close> branch: each of them, and
  no other, starts with a \<^verbatim>\<open>PeekMessage\<close> that removes and answers \<^verbatim>\<open>FALSE\<close>.
\<close>

definition idle_iterations :: "event list \<Rightarrow> nat" where
  "idle_iterations tr = length (filter (\<lambda>e. e = CallPeekMessage PM_REMOVE False) tr)"

text \<open>
  The calls made in those iterations after the poll: everything logged between an empty
  \<^verbatim>\<open>PM_REMOVE\<close> poll and the next call of \<^verbatim>\<open>PeekMessage\<close>. The flag tells whether the last poll
  was such an empty one.
\<close>

fun calls_while_idle :: "bool \<Rightarrow> event list \<Rightarrow> event list" where
  "calls_while_idle idle [] = []"
| "calls_while_idle idle (CallPeekMessage f r # es) =
     calls_while_idle (f = PM_REMOVE \<and> \<not> r) es"
| "calls_while_idle idle (e # es) =
     (if idle then e # calls_while_idle idle es else calls_while_idle idle es)"

primrec quit_posts :: "event list \<Rightarrow> cint list" where
  "quit_posts [] = []"
| "quit_posts (e # es) =
     (case e of CallPostQuitMessage c \<Rightarrow> c # quit_posts es | _ \<Rightarrow> quit_posts es)"

primrec peeks :: "event list \<Rightarrow> (remove_flag \<times> bool) list" where
  "peeks [] = []"
| "peeks (e # es) =
     (case e of CallPeekMessage f r \<Rightarrow> (f, r) # peeks es | _ \<Rightarrow> peeks es)"

text \<open>The batch that the next call of \<^verbatim>\<open>PeekMessage\<close> lets into the queue.\<close>

definition next_batch :: "world \<Rightarrow> MSG list" where
  "next_batch w = (case arrivals w of [] \<Rightarrow> [] | b # bs \<Rightarrow> b)"

text \<open>
  What \<^verbatim>\<open>DispatchMessage\<close> sets off for a message \<open>m\<close>: the calls made by the window procedure,
  and the messages these calls post.
\<close>

definition wndproc_calls :: "MSG \<Rightarrow> event list" where
  "wndproc_calls m =
     (if hwnd m = 0 then []
      else (if message m = WM_DESTROY then [CallPostQuitMessage 0] else [])
           @ [CallDefWindowProc (hwnd m) (message m) (wParam m) (lParam m)])"

definition posted_by_dispatch :: "MSG \<Rightarrow> MSG list" where
  "posted_by_dispatch m =
     (if hwnd m = 0 then [] else if message m = WM_DESTROY then [quit_msg 0] else [])"

text \<open>The calls of an iteration that retrieves the message \<open>m\<close>.\<close>

definition retrieval_calls :: "MSG \<Rightarrow> event list" where
  "retrieval_calls m =
     [CallPeekMessage PM_REMOVE True, CallTranslateMessage m, CallDispatchMessage m]
     @ wndproc_calls m"

subsection \<open>A concrete system, for running the model\<close>

definition ex_env :: os_env where
  "ex_env = \<lparr>registerClassResult = 0xC001, createWindowResult = 0x2A,
     defWindowProcResult = (\<lambda>h uMsg wp lp. 0)\<rparr>"

definition ex_env_noclass :: os_env where
  "ex_env_noclass = ex_env\<lparr>registerClassResult := 0\<rparr>"

definition ex_env_nowindow :: os_env where
  "ex_env_nowindow = ex_env\<lparr>createWindowResult := 0\<rparr>"

text \<open>\<^verbatim>\<open>WM_PAINT\<close> and \<^verbatim>\<open>WM_DESTROY\<close> for the main window, and a \<^verbatim>\<open>WM_QUIT\<close> as another thread posts it.\<close>

definition ex_paint :: MSG where
  "ex_paint = \<lparr>hwnd = 0x2A, message = 0x000F, wParam = 0, lParam = 0\<rparr>"

definition ex_destroy :: MSG where
  "ex_destroy = \<lparr>hwnd = 0x2A, message = WM_DESTROY, wParam = 0, lParam = 0\<rparr>"

definition ex_quit :: MSG where
  "ex_quit = \<lparr>hwnd = 0, message = WM_QUIT, wParam = 3, lParam = 0\<rparr>"

definition ex_click :: MSG where
  "ex_click = \<lparr>hwnd = 0x2A, message = 0x0201, wParam = 1, lParam = 0x00640032\<rparr>"

text \<open>Arbitrary contents for the uninitialised \<^verbatim>\<open>msg\<close>.\<close>

definition ex_junk :: MSG where
  "ex_junk = \<lparr>hwnd = 0x99, message = 0x0012, wParam = 5, lParam = 6\<rparr>"

definition ex_world :: "MSG list \<Rightarrow> MSG list list \<Rightarrow> world" where
  "ex_world q a = \<lparr>queue = q, arrivals = a, trace = []\<rparr>"

subsection \<open>Reading the log of a longer run\<close>

lemma dispatched_append [simp]: "dispatched (xs @ ys) = dispatched xs @ dispatched ys"
  by (induction xs) (simp_all split: event.split)

lemma translated_append [simp]: "translated (xs @ ys) = translated xs @ translated ys"
  by (induction xs) (simp_all split: event.split)

lemma peeks_append [simp]: "peeks (xs @ ys) = peeks xs @ peeks ys"
  by (induction xs) (simp_all split: event.split)

lemma quit_posts_append [simp]: "quit_posts (xs @ ys) = quit_posts xs @ quit_posts ys"
  by (induction xs) (simp_all split: event.split)

lemma idle_iterations_append [simp]: "idle_iterations (xs @ ys) = idle_iterations xs + idle_iterations ys"
  by (simp add: idle_iterations_def)

lemma idle_iterations_simps [simp]:
  "idle_iterations [] = 0"
  "idle_iterations (CallPeekMessage PM_REMOVE False # es) = Suc (idle_iterations es)"
  "e \<noteq> CallPeekMessage PM_REMOVE False \<Longrightarrow> idle_iterations (e # es) = idle_iterations es"
  by (simp_all add: idle_iterations_def)

lemma wndproc_calls_log [simp]:
  "dispatched (wndproc_calls m) = []"
  "translated (wndproc_calls m) = []"
  "peeks (wndproc_calls m) = []"
  "idle_iterations (wndproc_calls m) = 0"
  by (simp_all add: wndproc_calls_def)

lemma wndproc_calls_quit_posts:
  "quit_posts (wndproc_calls m) =
     (if hwnd m = 0 then [] else if message m = WM_DESTROY then [0] else [])"
  by (simp add: wndproc_calls_def)

lemma WM_distinct [simp]: "WM_NULL \<noteq> WM_QUIT" "WM_DESTROY \<noteq> WM_QUIT"
  by (simp_all add: WM_NULL_def WM_QUIT_def WM_DESTROY_def)

subsection \<open>The API calls, as updates of the world\<close>

lemma deliver_eq:
  "deliver w = w\<lparr>queue := queue w @ next_batch w, arrivals := tl (arrivals w)\<rparr>"
  by (simp add: deliver_def next_batch_def split: list.split)

lemma WndProc_eq:
  "WndProc env h uMsg wp lp w =
     (defWindowProcResult env h uMsg wp lp,
      w\<lparr>queue := queue w @ (if uMsg = WM_DESTROY then [quit_msg 0] else []),
        trace := trace w @ (if uMsg = WM_DESTROY then [CallPostQuitMessage 0] else [])
                 @ [CallDefWindowProc h uMsg wp lp]\<rparr>)"
  by (simp add: WndProc_def DefWindowProc_def PostQuitMessage_def record_event_def)

lemma DispatchMessage_eq:
  "DispatchMessage env m w =
     w\<lparr>queue := queue w @ posted_by_dispatch m,
       trace := trace w @ CallDispatchMessage m # wndproc_calls m\<rparr>"
  by (simp add: DispatchMessage_def WndProc_eq record_event_def posted_by_dispatch_def
      wndproc_calls_def)

subsection \<open>One iteration\<close>

lemma loop_body_got:
  assumes "queue (wld s) = m # q"
  shows "loop_body env s =
     \<lparr>bGotMsg = True, msg = m,
      wld = \<lparr>queue = q @ next_batch (wld s) @ posted_by_dispatch m,
             arrivals = tl (arrivals (wld s)),
             trace = trace (wld s) @
               [CallPeekMessage PM_REMOVE True, CallTranslateMessage m, CallDispatchMessage m]
               @ wndproc_calls m\<rparr>\<rparr>"
  using assms
  by (simp add: loop_body_def PeekMessage_def deliver_eq DispatchMessage_eq TranslateMessage_def
      record_event_def next_batch_def)

lemma loop_body_idle:
  assumes "queue (wld s) = []"
  shows "loop_body env s =
     \<lparr>bGotMsg = False, msg = msg s,
      wld = \<lparr>queue = next_batch (wld s),
             arrivals = tl (arrivals (wld s)),
             trace = trace (wld s) @ [CallPeekMessage PM_REMOVE False]\<rparr>\<rparr>"
  using assms
  by (simp add: loop_body_def PeekMessage_def deliver_eq record_event_def next_batch_def)

subsection \<open>Several iterations\<close>

lemma loop_continue:
  "message (msg s) \<noteq> WM_QUIT \<Longrightarrow> wWinMain_loop env s = wWinMain_loop env (loop_body env s)"
  by (subst wWinMain_loop.simps) simp

lemma loop_exit:
  "message (msg s) = WM_QUIT \<Longrightarrow> wWinMain_loop env s = Some s"
  by (subst wWinMain_loop.simps) simp

lemma loop_unroll:
  "(\<And>i. i < k \<Longrightarrow> message (msg ((loop_body env ^^ i) s)) \<noteq> WM_QUIT) \<Longrightarrow>
   wWinMain_loop env s = wWinMain_loop env ((loop_body env ^^ k) s)"
proof (induction k arbitrary: s)
  case 0
  show ?case by simp
next
  case (Suc k)
  have g: "message (msg s) \<noteq> WM_QUIT"
    using Suc.prems [of 0] by simp
  have "wWinMain_loop env (loop_body env s) =
        wWinMain_loop env ((loop_body env ^^ k) (loop_body env s))"
  proof (rule Suc.IH)
    fix i assume "i < k"
    then have "message (msg ((loop_body env ^^ Suc i) s)) \<noteq> WM_QUIT"
      using Suc.prems [of "Suc i"] by simp
    then show "message (msg ((loop_body env ^^ i) (loop_body env s))) \<noteq> WM_QUIT"
      by (simp add: funpow_swap1)
  qed
  with g show ?case
    by (simp add: loop_continue funpow_swap1)
qed

lemma loop_terminates:
  assumes "message (msg ((loop_body env ^^ k) s)) = WM_QUIT"
  shows "\<exists>j\<le>k. wWinMain_loop env s = Some ((loop_body env ^^ j) s)
           \<and> (\<forall>i<j. message (msg ((loop_body env ^^ i) s)) \<noteq> WM_QUIT)
           \<and> message (msg ((loop_body env ^^ j) s)) = WM_QUIT"
proof -
  define j where "j = (LEAST i. message (msg ((loop_body env ^^ i) s)) = WM_QUIT)"
  have q: "message (msg ((loop_body env ^^ j) s)) = WM_QUIT"
    unfolding j_def using assms by (rule LeastI)
  have le: "j \<le> k"
    unfolding j_def using assms by (rule Least_le)
  have before: "message (msg ((loop_body env ^^ i) s)) \<noteq> WM_QUIT" if "i < j" for i
    using that not_less_Least unfolding j_def by blast
  have "wWinMain_loop env s = wWinMain_loop env ((loop_body env ^^ j) s)"
    by (rule loop_unroll) (rule before)
  also have "\<dots> = Some ((loop_body env ^^ j) s)"
    using q by (rule loop_exit)
  finally show ?thesis
    using le q before by blast
qed

text \<open>A run of pending messages without a sentinel.\<close>

lemma pending_guard:
  "queue (wld s) = ms @ rest \<Longrightarrow> \<forall>m\<in>set ms. message m \<noteq> WM_QUIT \<Longrightarrow>
   message (msg s) \<noteq> WM_QUIT \<Longrightarrow> i \<le> length ms \<Longrightarrow>
   message (msg ((loop_body env ^^ i) s)) \<noteq> WM_QUIT"
proof (induction ms arbitrary: s rest i)
  case Nil
  then show ?case by simp
next
  case (Cons m ms)
  show ?case
  proof (cases i)
    case 0
    with Cons.prems show ?thesis by simp
  next
    case (Suc j)
    have b: "queue (wld s) = m # (ms @ rest)"
      using Cons.prems(1) by simp
    have "message (msg ((loop_body env ^^ j) (loop_body env s))) \<noteq> WM_QUIT"
    proof (rule Cons.IH)
      show "queue (wld (loop_body env s)) =
              ms @ (rest @ next_batch (wld s) @ posted_by_dispatch m)"
        by (simp add: loop_body_got [OF b])
      show "\<forall>m\<in>set ms. message m \<noteq> WM_QUIT"
        using Cons.prems(2) by simp
      show "message (msg (loop_body env s)) \<noteq> WM_QUIT"
        using Cons.prems(2) by (simp add: loop_body_got [OF b])
      show "j \<le> length ms"
        using Cons.prems(4) Suc by simp
    qed
    with Suc show ?thesis
      by (simp add: funpow_swap1)
  qed
qed

lemma pending_retrieved:
  "queue (wld s) = ms @ rest \<Longrightarrow> i < length ms \<Longrightarrow>
   bGotMsg ((loop_body env ^^ Suc i) s) \<and> msg ((loop_body env ^^ Suc i) s) = ms ! i"
proof (induction ms arbitrary: s rest i)
  case Nil
  then show ?case by simp
next
  case (Cons m ms)
  have b: "queue (wld s) = m # (ms @ rest)"
    using Cons.prems(1) by simp
  show ?case
  proof (cases i)
    case 0
    then show ?thesis by (simp add: loop_body_got [OF b])
  next
    case (Suc j)
    have "bGotMsg ((loop_body env ^^ Suc j) (loop_body env s)) \<and>
          msg ((loop_body env ^^ Suc j) (loop_body env s)) = ms ! j"
    proof (rule Cons.IH)
      show "queue (wld (loop_body env s)) =
              ms @ (rest @ next_batch (wld s) @ posted_by_dispatch m)"
        by (simp add: loop_body_got [OF b])
      show "j < length ms"
        using Cons.prems(2) Suc by simp
    qed
    then show ?thesis
      unfolding Suc by (simp only: funpow_Suc_right o_apply nth_Cons_Suc)
  qed
qed

lemma pending_log:
  "queue (wld s) = ms @ rest \<Longrightarrow>
   dispatched (trace (wld ((loop_body env ^^ length ms) s))) = dispatched (trace (wld s)) @ ms \<and>
   translated (trace (wld ((loop_body env ^^ length ms) s))) = translated (trace (wld s)) @ ms \<and>
   idle_iterations (trace (wld ((loop_body env ^^ length ms) s))) = idle_iterations (trace (wld s)) \<and>
   (\<exists>later. queue (wld ((loop_body env ^^ length ms) s)) = rest @ later)"
proof (induction ms arbitrary: s rest)
  case Nil
  then show ?case by simp
next
  case (Cons m ms)
  have b: "queue (wld s) = m # (ms @ rest)"
    using Cons.prems(1) by simp
  have q: "queue (wld (loop_body env s)) =
             ms @ (rest @ next_batch (wld s) @ posted_by_dispatch m)"
    by (simp add: loop_body_got [OF b])
  have t: "trace (wld (loop_body env s)) = trace (wld s) @
             [CallPeekMessage PM_REMOVE True, CallTranslateMessage m, CallDispatchMessage m]
             @ wndproc_calls m"
    by (simp add: loop_body_got [OF b])
  show ?case
    using Cons.IH [OF q] by (auto simp: funpow_swap1 t)
qed

text \<open>Empty polls until a batch with a sentinel at its head comes in.\<close>

lemma sentinel_at_head:
  "queue (wld s) = q # rest \<Longrightarrow> message q = WM_QUIT \<Longrightarrow> message (msg s) \<noteq> WM_QUIT \<Longrightarrow>
   wWinMain_loop env s = Some (loop_body env s)"
  by (simp add: loop_continue loop_exit loop_body_got)

lemma idle_run_trace:
  "queue (wld s) = [] \<Longrightarrow> arrivals (wld s) = replicate n [] @ (q # b) # rest \<Longrightarrow>
   message q = WM_QUIT \<Longrightarrow> message (msg s) \<noteq> WM_QUIT \<Longrightarrow>
   \<exists>s'. wWinMain_loop env s = Some s' \<and> msg s' = q \<and>
        trace (wld s') = trace (wld s) @
          replicate (Suc n) (CallPeekMessage PM_REMOVE False) @ retrieval_calls q"
proof (induction n arbitrary: s)
  case 0
  let ?s1 = "loop_body env s"
  have s1: "queue (wld ?s1) = q # b" "message (msg ?s1) \<noteq> WM_QUIT"
    "trace (wld ?s1) = trace (wld s) @ [CallPeekMessage PM_REMOVE False]"
    using 0 by (simp_all add: loop_body_idle next_batch_def)
  have "wWinMain_loop env s = wWinMain_loop env ?s1"
    using 0 by (simp add: loop_continue)
  also have "\<dots> = Some (loop_body env ?s1)"
    using s1 0 by (simp add: sentinel_at_head)
  finally show ?case
    using s1 by (simp add: loop_body_got [OF s1(1)] retrieval_calls_def)
next
  case (Suc n)
  let ?s1 = "loop_body env s"
  have s1: "queue (wld ?s1) = []" "message (msg ?s1) \<noteq> WM_QUIT"
    "arrivals (wld ?s1) = replicate n [] @ (q # b) # rest"
    "trace (wld ?s1) = trace (wld s) @ [CallPeekMessage PM_REMOVE False]"
    using Suc.prems by (simp_all add: loop_body_idle next_batch_def)
  have c: "wWinMain_loop env s = wWinMain_loop env ?s1"
    using Suc.prems by (simp add: loop_continue)
  from Suc.IH [OF s1(1) s1(3) Suc.prems(3) s1(2)]
  show ?case
    unfolding c by (auto simp: s1(4))
qed

subsection \<open>Before the loop\<close>

lemma init_no_class:
  "registerClassResult env = 0 \<Longrightarrow>
   wWinMain_init env nCmdShow b0 m0 w0 = Inl (- 1, w0\<lparr>trace := trace w0 @ [CallRegisterClassEx]\<rparr>)"
  by (simp add: wWinMain_init_def RegisterClassEx_def record_event_def)

lemma init_no_window:
  "registerClassResult env \<noteq> 0 \<Longrightarrow> createWindowResult env = 0 \<Longrightarrow>
   wWinMain_init env nCmdShow b0 m0 w0 =
     Inl (- 1, w0\<lparr>trace := trace w0 @ [CallRegisterClassEx, CallCreateWindowEx]\<rparr>)"
  by (simp add: wWinMain_init_def RegisterClassEx_def CreateWindowEx_def record_event_def)

lemma init_ok:
  "registerClassResult env \<noteq> 0 \<Longrightarrow> createWindowResult env \<noteq> 0 \<Longrightarrow>
   wWinMain_init env nCmdShow b0 m0 w0 =
     Inr \<lparr>bGotMsg = b0,
          msg = (case queue w0 of [] \<Rightarrow> m0\<lparr>message := WM_NULL\<rparr> | m # ms \<Rightarrow> m),
          wld = \<lparr>queue = queue w0 @ next_batch w0,
                 arrivals = tl (arrivals w0),
                 trace = trace w0 @
                   [CallRegisterClassEx, CallCreateWindowEx,
                    CallShowWindow (createWindowResult env) nCmdShow,
                    CallPeekMessage PM_NOREMOVE (queue w0 \<noteq> [])]\<rparr>\<rparr>"
  by (simp add: wWinMain_init_def RegisterClassEx_def CreateWindowEx_def ShowWindow_def
      PeekMessage_def deliver_eq record_event_def next_batch_def split: list.split)

lemmas run_defs =
  wWinMain_def wWinMain_init_def wWinMain_loop.simps loop_body_def PeekMessage_def
  deliver_def record_event_def DispatchMessage_def TranslateMessage_def WndProc_def
  DefWindowProc_def PostQuitMessage_def quit_msg_def WM_QUIT_def WM_NULL_def WM_DESTROY_def
  RegisterClassEx_def CreateWindowEx_def ShowWindow_def
  ex_env_def ex_env_noclass_def ex_env_nowindow_def ex_paint_def ex_destroy_def ex_quit_def
  ex_junk_def ex_click_def ex_world_def next_batch_def wndproc_calls_def posted_by_dispatch_def

lemma loop_body_eq:
  "loop_body env s =
     (case queue (wld s) of
        [] \<Rightarrow>
          \<lparr>bGotMsg = False, msg = msg s,
           wld = \<lparr>queue = next_batch (wld s), arrivals = tl (arrivals (wld s)),
                  trace = trace (wld s) @ [CallPeekMessage PM_REMOVE False]\<rparr>\<rparr>
      | m # q \<Rightarrow>
          \<lparr>bGotMsg = True, msg = m,
           wld = \<lparr>queue = q @ next_batch (wld s) @ posted_by_dispatch m,
                  arrivals = tl (arrivals (wld s)),
                  trace = trace (wld s) @
                    [CallPeekMessage PM_REMOVE True, CallTranslateMessage m,
                     CallDispatchMessage m] @ wndproc_calls m\<rparr>\<rparr>)"
  by (simp add: loop_body_got loop_body_idle split: list.split)

subsection \<open>The exact log of a run\<close>

lemma retrieval_calls_log [simp]:
  "dispatched (retrieval_calls m) = [m]"
  "translated (retrieval_calls m) = [m]"
  "peeks (retrieval_calls m) = [(PM_REMOVE, True)]"
  "idle_iterations (retrieval_calls m) = 0"
  by (simp_all add: retrieval_calls_def)

lemma trace_extends:
  "\<exists>ev. trace (wld ((loop_body env ^^ j) t)) = trace (wld t) @ ev"
proof (induction j)
  case 0
  show ?case by simp
next
  case (Suc j)
  then obtain ev where ev: "trace (wld ((loop_body env ^^ j) t)) = trace (wld t) @ ev"
    by blast
  show ?case
  proof (cases "queue (wld ((loop_body env ^^ j) t))")
    case Nil
    then show ?thesis by (simp add: loop_body_idle ev)
  next
    case (Cons m q)
    then show ?thesis by (simp add: loop_body_got [OF Cons] ev)
  qed
qed

lemma pending_trace:
  "queue (wld s) = ms @ rest \<Longrightarrow>
   trace (wld ((loop_body env ^^ length ms) s)) = trace (wld s) @ concat (map retrieval_calls ms)"
proof (induction ms arbitrary: s rest)
  case Nil
  then show ?case by simp
next
  case (Cons m ms)
  have b: "queue (wld s) = m # (ms @ rest)"
    using Cons.prems(1) by simp
  have q: "queue (wld (loop_body env s)) =
             ms @ (rest @ next_batch (wld s) @ posted_by_dispatch m)"
    by (simp add: loop_body_got [OF b])
  have t: "trace (wld (loop_body env s)) = trace (wld s) @ retrieval_calls m"
    by (simp add: loop_body_got [OF b] retrieval_calls_def)
  show ?case
    using Cons.IH [OF q] by (simp add: funpow_swap1 t)
qed

lemma pending_then_sentinel:
  assumes "queue (wld s) = ms @ Q # rest"
    and "\<forall>m\<in>set ms. message m \<noteq> WM_QUIT"
    and "message (msg s) \<noteq> WM_QUIT"
    and "message Q = WM_QUIT"
  shows "wWinMain_loop env s = Some (loop_body env ((loop_body env ^^ length ms) s))
       \<and> msg (loop_body env ((loop_body env ^^ length ms) s)) = Q
       \<and> trace (wld (loop_body env ((loop_body env ^^ length ms) s))) =
           trace (wld s) @ concat (map retrieval_calls (ms @ [Q]))"
proof -
  let ?t = "(loop_body env ^^ length ms) s"
  have g: "message (msg ((loop_body env ^^ i) s)) \<noteq> WM_QUIT" if "i \<le> length ms" for i
    using assms(1-3) that by (rule pending_guard)
  have u: "wWinMain_loop env s = wWinMain_loop env ?t"
    by (rule loop_unroll) (simp add: g)
  obtain later where q: "queue (wld ?t) = Q # (rest @ later)"
    using pending_log [OF assms(1), of env] by auto
  have "wWinMain_loop env ?t = Some (loop_body env ?t)"
    using q assms(4) g [of "length ms"] by (simp add: sentinel_at_head)
  moreover have "trace (wld (loop_body env ?t)) = trace (wld ?t) @ retrieval_calls Q"
    by (simp add: loop_body_got [OF q] retrieval_calls_def)
  moreover have "msg (loop_body env ?t) = Q"
    by (simp add: loop_body_got [OF q])
  ultimately show ?thesis
    using u pending_trace [OF assms(1), of env] by simp
qed

lemma idle_iterations_replicate [simp]:
  "idle_iterations (replicate n (CallPeekMessage PM_REMOVE False)) = n"
  by (simp add: idle_iterations_def)

lemma peeks_replicate [simp]:
  "peeks (replicate n (CallPeekMessage f r)) = replicate n (f, r)"
  by (induction n) simp_all

lemma retrieval_calls_concat [simp]:
  "dispatched (concat (map retrieval_calls ms)) = ms"
  "translated (concat (map retrieval_calls ms)) = ms"
  "idle_iterations (concat (map retrieval_calls ms)) = 0"
  by (induction ms) simp_all

subsection \<open>The claims\<close>

text \<open>
  Claim C1. Let the loop be running (the last message record is not \<^verbatim>\<open>WM_QUIT\<close>) with the
  messages \<open>ms\<close> pending at the head of the queue, none of them \<^verbatim>\<open>WM_QUIT\<close>. Then the loop
  performs the next \<open>length ms\<close> iterations; iteration \<open>i + 1\<close> retrieves \<open>ms ! i\<close>; the calls of
  these iterations are, for each message of \<open>ms\<close> in the order of the queue, one removing
  \<^verbatim>\<open>PeekMessage\<close>, one \<^verbatim>\<open>TranslateMessage\<close> and one \<^verbatim>\<open>DispatchMessage\<close> (with what the window
  procedure does), and nothing else; none of them is an idle iteration; and afterwards \<open>ms\<close> is
  gone from the queue, whatever came in behind it. The run of the loop shows the same: with a
  \<^verbatim>\<open>WM_QUIT\<close> right behind \<open>ms\<close> the loop returns, and its log is that of \<open>ms\<close> followed by the
  \<^verbatim>\<open>WM_QUIT\<close>; and whenever a \<^verbatim>\<open>WM_QUIT\<close> is retrieved later at all, the loop returns with
  \<open>ms\<close> as the first messages dispatched, each once and in the order of the queue.
\<close>

theorem pending_messages_dispatched_once_in_order:
  assumes "queue (wld s) = ms @ rest"
    and "\<forall>m\<in>set ms. message m \<noteq> WM_QUIT"
    and "message (msg s) \<noteq> WM_QUIT"
  shows "wWinMain_loop env s = wWinMain_loop env ((loop_body env ^^ length ms) s)
       \<and> (\<forall>i<length ms. message (msg ((loop_body env ^^ i) s)) \<noteq> WM_QUIT
             \<and> bGotMsg ((loop_body env ^^ Suc i) s)
             \<and> msg ((loop_body env ^^ Suc i) s) = ms ! i)
       \<and> trace (wld ((loop_body env ^^ length ms) s))
           = trace (wld s) @ concat (map retrieval_calls ms)
       \<and> dispatched (trace (wld ((loop_body env ^^ length ms) s)))
           = dispatched (trace (wld s)) @ ms
       \<and> translated (trace (wld ((loop_body env ^^ length ms) s)))
           = translated (trace (wld s)) @ ms
       \<and> idle_iterations (trace (wld ((loop_body env ^^ length ms) s)))
           = idle_iterations (trace (wld s))
       \<and> (\<exists>later. queue (wld ((loop_body env ^^ length ms) s)) = rest @ later)
       \<and> (\<forall>Q more. rest = Q # more \<and> message Q = WM_QUIT \<longrightarrow>
            (\<exists>s'. wWinMain_loop env s = Some s' \<and> msg s' = Q
               \<and> trace (wld s') = trace (wld s) @ concat (map retrieval_calls (ms @ [Q]))
               \<and> dispatched (trace (wld s')) = dispatched (trace (wld s)) @ ms @ [Q]
               \<and> idle_iterations (trace (wld s')) = idle_iterations (trace (wld s))))
       \<and> (\<forall>k. message (msg ((loop_body env ^^ k) ((loop_body env ^^ length ms) s))) = WM_QUIT
            \<longrightarrow> (\<exists>s' after. wWinMain_loop env s = Some s' \<and>
                   dispatched (trace (wld s')) = dispatched (trace (wld s)) @ ms @ after))"
proof -
  let ?t = "(loop_body env ^^ length ms) s"
  have g: "message (msg ((loop_body env ^^ i) s)) \<noteq> WM_QUIT" if "i \<le> length ms" for i
    using assms that by (rule pending_guard)
  have u: "wWinMain_loop env s = wWinMain_loop env ?t"
    by (rule loop_unroll) (simp add: g)
  have r: "\<forall>i<length ms. message (msg ((loop_body env ^^ i) s)) \<noteq> WM_QUIT
             \<and> bGotMsg ((loop_body env ^^ Suc i) s)
             \<and> msg ((loop_body env ^^ Suc i) s) = ms ! i"
    using g pending_retrieved [OF assms(1)] by (simp del: funpow.simps)
  have t: "trace (wld ?t) = trace (wld s) @ concat (map retrieval_calls ms)"
    using assms(1) by (rule pending_trace)
  have l: "dispatched (trace (wld ?t)) = dispatched (trace (wld s)) @ ms
       \<and> translated (trace (wld ?t)) = translated (trace (wld s)) @ ms
       \<and> idle_iterations (trace (wld ?t)) = idle_iterations (trace (wld s))
       \<and> (\<exists>later. queue (wld ?t) = rest @ later)"
    using assms(1) by (rule pending_log)
  have a: "\<exists>s'. wWinMain_loop env s = Some s' \<and> msg s' = Q
               \<and> trace (wld s') = trace (wld s) @ concat (map retrieval_calls (ms @ [Q]))
               \<and> dispatched (trace (wld s')) = dispatched (trace (wld s)) @ ms @ [Q]
               \<and> idle_iterations (trace (wld s')) = idle_iterations (trace (wld s))"
    if "rest = Q # more \<and> message Q = WM_QUIT" for Q more
  proof -
    from that assms(1) have q: "queue (wld s) = ms @ Q # more" and m: "message Q = WM_QUIT"
      by simp_all
    let ?e = "loop_body env ?t"
    from pending_then_sentinel [OF q assms(2) assms(3) m, of env]
    have e: "wWinMain_loop env s = Some ?e" "msg ?e = Q"
      "trace (wld ?e) = trace (wld s) @ concat (map retrieval_calls (ms @ [Q]))"
      by simp_all
    have "dispatched (trace (wld ?e)) = dispatched (trace (wld s)) @ ms @ [Q]"
      by (simp add: e(3))
    moreover have "idle_iterations (trace (wld ?e)) = idle_iterations (trace (wld s))"
      by (simp add: e(3))
    ultimately show ?thesis
      using e by blast
  qed
  have b: "\<exists>s' after. wWinMain_loop env s = Some s' \<and>
             dispatched (trace (wld s')) = dispatched (trace (wld s)) @ ms @ after"
    if "message (msg ((loop_body env ^^ k) ?t)) = WM_QUIT" for k
  proof -
    from loop_terminates [OF that] obtain j
      where j: "wWinMain_loop env ?t = Some ((loop_body env ^^ j) ?t)"
      by blast
    obtain ev where ev: "trace (wld ((loop_body env ^^ j) ?t)) = trace (wld ?t) @ ev"
      using trace_extends by blast
    have "dispatched (trace (wld ((loop_body env ^^ j) ?t))) =
            dispatched (trace (wld s)) @ ms @ dispatched ev"
      using l by (simp add: ev)
    with u j show ?thesis
      by auto
  qed
  from u r t l a b show ?thesis
    by blast
qed

theorem pending_messages_dispatched_once_in_order_witness:
  "(\<exists>s'. wWinMain_loop ex_env
        \<lparr>bGotMsg = False, msg = ex_paint, wld = ex_world [ex_paint, ex_destroy, ex_quit] []\<rparr>
        = Some s'
      \<and> dispatched (trace (wld s')) = [ex_paint, ex_destroy, ex_quit])
   \<and> dispatched (trace (wld ((loop_body ex_env ^^ 2)
        \<lparr>bGotMsg = False, msg = ex_paint, wld = ex_world [ex_paint, ex_destroy, ex_quit] []\<rparr>)))
      = [ex_paint, ex_destroy]"
proof -
  let ?s = "\<lparr>bGotMsg = False, msg = ex_paint, wld = ex_world [ex_paint, ex_destroy, ex_quit] []\<rparr>"
  have h1: "queue (wld ?s) = [ex_paint, ex_destroy] @ [ex_quit]"
    by (simp add: ex_world_def)
  have h2: "\<forall>m\<in>set [ex_paint, ex_destroy]. message m \<noteq> WM_QUIT"
    by (simp add: ex_paint_def ex_destroy_def WM_QUIT_def WM_DESTROY_def)
  have h3: "message (msg ?s) \<noteq> WM_QUIT"
    by (simp add: ex_paint_def WM_QUIT_def)
  have h4: "message ex_quit = WM_QUIT"
    by (simp add: ex_quit_def)
  have t: "trace (wld ?s) = []"
    by (simp add: ex_world_def)
  have n: "length [ex_paint, ex_destroy] = 2"
    by simp
  note c = pending_messages_dispatched_once_in_order [OF h1 h2 h3, of ex_env, unfolded n t]
  from c h4 have "\<exists>s'. wWinMain_loop ex_env ?s = Some s'
      \<and> dispatched (trace (wld s')) = dispatched [] @ [ex_paint, ex_destroy] @ [ex_quit]"
    by blast
  moreover from c have "dispatched (trace (wld ((loop_body ex_env ^^ 2) ?s)))
      = dispatched [] @ [ex_paint, ex_destroy]"
    by blast
  ultimately show ?thesis
    by simp
qed

text \<open>
  Claim C2. First part: whenever the loop is running and the message retrieved by the
  \<^verbatim>\<open>PeekMessage\<close> of the current iteration is \<^verbatim>\<open>WM_QUIT\<close>, that iteration is the last one, in
  whatever state the loop is (so after any number of idle iterations). Second part: if, counting
  from the entry of the loop, the message record holds \<^verbatim>\<open>WM_QUIT\<close> after some number \<open>k\<close> of
  iterations of the body, then the loop is left after the first \<open>j \<le> k\<close> iterations at which this
  is so, and \<^verbatim>\<open>wWinMain\<close> returns 0.
\<close>

theorem sentinel_ends_loop_with_status_zero:
  "(queue (wld s) = q # rest \<and> message q = WM_QUIT \<and> message (msg s) \<noteq> WM_QUIT \<longrightarrow>
      msg (loop_body env s) = q \<and> wWinMain_loop env s = Some (loop_body env s))
   \<and> (wWinMain_init env nCmdShow b0 m0 w0 = Inr s0 \<and>
        message (msg ((loop_body env ^^ k) s0)) = WM_QUIT \<longrightarrow>
        (\<exists>j\<le>k. (\<forall>i<j. message (msg ((loop_body env ^^ i) s0)) \<noteq> WM_QUIT)
           \<and> message (msg ((loop_body env ^^ j) s0)) = WM_QUIT
           \<and> wWinMain_loop env s0 = Some ((loop_body env ^^ j) s0)
           \<and> wWinMain env nCmdShow b0 m0 w0 = Some (0, wld ((loop_body env ^^ j) s0))))"
proof (intro conjI impI)
  assume a: "queue (wld s) = q # rest \<and> message q = WM_QUIT \<and> message (msg s) \<noteq> WM_QUIT"
  then show "msg (loop_body env s) = q"
    by (simp add: loop_body_eq)
  from a show "wWinMain_loop env s = Some (loop_body env s)"
    by (simp add: sentinel_at_head)
next
  assume a: "wWinMain_init env nCmdShow b0 m0 w0 = Inr s0 \<and>
        message (msg ((loop_body env ^^ k) s0)) = WM_QUIT"
  then obtain j where j: "j \<le> k"
      "wWinMain_loop env s0 = Some ((loop_body env ^^ j) s0)"
      "\<forall>i<j. message (msg ((loop_body env ^^ i) s0)) \<noteq> WM_QUIT"
      "message (msg ((loop_body env ^^ j) s0)) = WM_QUIT"
    using loop_terminates [where env = env and k = k and s = s0] by blast
  have "wWinMain env nCmdShow b0 m0 w0 = Some (0, wld ((loop_body env ^^ j) s0))"
    using a j(2) by (simp add: wWinMain_def)
  with j show "\<exists>j\<le>k. (\<forall>i<j. message (msg ((loop_body env ^^ i) s0)) \<noteq> WM_QUIT)
           \<and> message (msg ((loop_body env ^^ j) s0)) = WM_QUIT
           \<and> wWinMain_loop env s0 = Some ((loop_body env ^^ j) s0)
           \<and> wWinMain env nCmdShow b0 m0 w0 = Some (0, wld ((loop_body env ^^ j) s0))"
    by blast
qed

theorem sentinel_ends_loop_with_status_zero_witness:
  "wWinMain_loop ex_env \<lparr>bGotMsg = False, msg = ex_paint, wld = ex_world [ex_quit, ex_click] []\<rparr>
     = Some (loop_body ex_env
         \<lparr>bGotMsg = False, msg = ex_paint, wld = ex_world [ex_quit, ex_click] []\<rparr>)
   \<and> (\<exists>w. wWinMain ex_env 1 False ex_junk (ex_world [] [[], [], [ex_quit]]) = Some (0, w))"
proof -
  let ?s = "\<lparr>bGotMsg = False, msg = ex_paint, wld = ex_world [ex_quit, ex_click] []\<rparr>"
  let ?entry = "\<lparr>bGotMsg = False, msg = ex_junk\<lparr>message := WM_NULL\<rparr>,
     wld = \<lparr>queue = [], arrivals = [[], [ex_quit]],
            trace = [CallRegisterClassEx, CallCreateWindowEx, CallShowWindow 0x2A 1,
                     CallPeekMessage PM_NOREMOVE False]\<rparr>\<rparr>"
  have h1: "queue (wld ?s) = ex_quit # [ex_click] \<and> message ex_quit = WM_QUIT
            \<and> message (msg ?s) \<noteq> WM_QUIT"
    by (simp add: ex_world_def ex_quit_def ex_paint_def WM_QUIT_def)
  have h2: "wWinMain_init ex_env 1 False ex_junk (ex_world [] [[], [], [ex_quit]]) = Inr ?entry
            \<and> message (msg ((loop_body ex_env ^^ 3) ?entry)) = WM_QUIT"
    by (simp add: run_defs numeral_3_eq_3)
  from sentinel_ends_loop_with_status_zero [of ?s ex_quit "[ex_click]" ex_env 1 False ex_junk
      "ex_world [] [[], [], [ex_quit]]" ?entry 3] h1 h2
  show ?thesis by blast
qed

text \<open>
  Claim C3, as stated, fails. With \<^verbatim>\<open>WM_PAINT\<close>, a mouse click and \<^verbatim>\<open>WM_QUIT\<close> pending, the run
  makes three calls of \<^verbatim>\<open>DispatchMessage\<close>, not two: the iteration that retrieves \<^verbatim>\<open>WM_QUIT\<close>
  has \<^verbatim>\<open>bGotMsg\<close> true and passes the message to \<^verbatim>\<open>TranslateMessage\<close> and \<^verbatim>\<open>DispatchMessage\<close>
  (lines 103 to 107) before the loop condition is tested again.
\<close>

theorem three_message_run_not_two_dispatch_calls:
  "map_option (length \<circ> dispatched \<circ> trace \<circ> snd)
     (wWinMain ex_env 1 False ex_junk (ex_world [ex_paint, ex_click, ex_quit] [])) = Some 3
   \<and> map_option (length \<circ> dispatched \<circ> trace \<circ> snd)
     (wWinMain ex_env 1 False ex_junk (ex_world [ex_paint, ex_click, ex_quit] [])) \<noteq> Some 2"
  by (simp add: run_defs)

text \<open>
  Claim C3, amended. When registration and creation succeed and the pending messages are exactly
  \<open>[A, B, Q]\<close> with \<open>A\<close> and \<open>B\<close> not \<^verbatim>\<open>WM_QUIT\<close> and \<open>Q\<close> a \<^verbatim>\<open>WM_QUIT\<close>, the entry point
  returns 0 after three iterations: it translates and dispatches \<open>A\<close>, then \<open>B\<close>, then \<open>Q\<close> itself,
  and never takes the \<^verbatim>\<open>else\<close> branch. \<^verbatim>\<open>DispatchMessage\<close> is called exactly three times; two of
  the three messages are not the sentinel.
\<close>

theorem three_message_run_dispatches_sentinel_too:
  assumes "registerClassResult env \<noteq> 0" and "createWindowResult env \<noteq> 0"
    and "queue w0 = [A, B, Q]"
    and "message A \<noteq> WM_QUIT" and "message B \<noteq> WM_QUIT" and "message Q = WM_QUIT"
  shows "\<exists>w. wWinMain env nCmdShow b0 m0 w0 = Some (0, w)
       \<and> trace w = trace w0 @
           [CallRegisterClassEx, CallCreateWindowEx,
            CallShowWindow (createWindowResult env) nCmdShow,
            CallPeekMessage PM_NOREMOVE True,
            CallPeekMessage PM_REMOVE True, CallTranslateMessage A, CallDispatchMessage A]
           @ wndproc_calls A @
           [CallPeekMessage PM_REMOVE True, CallTranslateMessage B, CallDispatchMessage B]
           @ wndproc_calls B @
           [CallPeekMessage PM_REMOVE True, CallTranslateMessage Q, CallDispatchMessage Q]
           @ wndproc_calls Q
       \<and> dispatched (trace w) = dispatched (trace w0) @ [A, B, Q]
       \<and> length (dispatched (trace w)) = length (dispatched (trace w0)) + 3
       \<and> filter (\<lambda>m. message m \<noteq> WM_QUIT) [A, B, Q] = [A, B]
       \<and> idle_iterations (trace w) = idle_iterations (trace w0)"
  using assms
  by (simp add: wWinMain_def init_ok loop_continue loop_exit loop_body_eq)

theorem three_message_run_dispatches_sentinel_too_witness:
  "\<exists>w. wWinMain ex_env 1 False ex_junk (ex_world [ex_paint, ex_click, ex_quit] []) = Some (0, w)
      \<and> dispatched (trace w) = [ex_paint, ex_click, ex_quit]
      \<and> idle_iterations (trace w) = 0"
proof -
  have h: "registerClassResult ex_env \<noteq> 0" "createWindowResult ex_env \<noteq> 0"
    "queue (ex_world [ex_paint, ex_click, ex_quit] []) = [ex_paint, ex_click, ex_quit]"
    "message ex_paint \<noteq> WM_QUIT" "message ex_click \<noteq> WM_QUIT" "message ex_quit = WM_QUIT"
    by (simp_all add: ex_env_def ex_world_def ex_paint_def ex_click_def ex_quit_def WM_QUIT_def)
  from three_message_run_dispatches_sentinel_too [OF h, of 1 False ex_junk] show ?thesis
    by (auto simp: ex_world_def)
qed

text \<open>
  Claim C4, as stated, fails. Take an empty queue that stays empty for two iterations and then
  receives a \<^verbatim>\<open>WM_QUIT\<close>. The complete log of the run has two idle iterations, and no call at all
  is made in them: the \<^verbatim>\<open>else\<close> branch of lines 108 to 117 holds only comments, so no update,
  render or present hook is invoked, neither twice nor once.
\<close>

theorem idle_run_invokes_no_hook:
  "map_option (trace \<circ> snd)
     (wWinMain ex_env 1 False ex_junk (ex_world [] [[], [], [ex_quit]]))
     = Some [CallRegisterClassEx, CallCreateWindowEx, CallShowWindow 0x2A 1,
             CallPeekMessage PM_NOREMOVE False,
             CallPeekMessage PM_REMOVE False,
             CallPeekMessage PM_REMOVE False,
             CallPeekMessage PM_REMOVE True, CallTranslateMessage ex_quit,
             CallDispatchMessage ex_quit]
   \<and> map_option (idle_iterations \<circ> trace \<circ> snd)
       (wWinMain ex_env 1 False ex_junk (ex_world [] [[], [], [ex_quit]])) = Some 2
   \<and> map_option (length \<circ> calls_while_idle False \<circ> trace \<circ> snd)
       (wWinMain ex_env 1 False ex_junk (ex_world [] [[], [], [ex_quit]])) = Some 0"
  by (simp add: run_defs idle_iterations_def)

text \<open>
  Claim C4, amended. First part: an iteration that finds the queue empty takes the \<^verbatim>\<open>else\<close>
  branch, which does nothing: the state after the iteration is the state after its
  \<^verbatim>\<open>PeekMessage\<close>, and that call is the only one logged. Second part: when the queue is empty at
  the start, stays empty for the next \<open>N\<close> calls of \<^verbatim>\<open>PeekMessage\<close> in the loop and then receives
  a \<^verbatim>\<open>WM_QUIT\<close>, the entry point returns 0 after exactly \<open>N\<close> idle iterations: the log is the
  start-up, \<open>N\<close> empty polls with nothing between them, and the iteration that retrieves the
  \<^verbatim>\<open>WM_QUIT\<close>.
\<close>

theorem idle_iteration_makes_no_call:
  "(queue (wld s) = [] \<longrightarrow>
      loop_body env s =
        \<lparr>bGotMsg = False, msg = msg s,
         wld = deliver (record_event (CallPeekMessage PM_REMOVE False) (wld s))\<rparr>
      \<and> trace (wld (loop_body env s)) = trace (wld s) @ [CallPeekMessage PM_REMOVE False]
      \<and> idle_iterations (trace (wld (loop_body env s))) = idle_iterations (trace (wld s)) + 1)
   \<and> (registerClassResult env \<noteq> 0 \<and> createWindowResult env \<noteq> 0 \<and> queue w0 = [] \<and>
        arrivals w0 = replicate N [] @ (q # b) # rest \<and> message q = WM_QUIT \<longrightarrow>
        (\<exists>w. wWinMain env nCmdShow b0 m0 w0 = Some (0, w)
           \<and> trace w = trace w0 @
               [CallRegisterClassEx, CallCreateWindowEx,
                CallShowWindow (createWindowResult env) nCmdShow,
                CallPeekMessage PM_NOREMOVE False]
               @ replicate N (CallPeekMessage PM_REMOVE False) @ retrieval_calls q
           \<and> idle_iterations (trace w) = idle_iterations (trace w0) + N
           \<and> peeks (trace w) = peeks (trace w0) @
               (PM_NOREMOVE, False) # replicate N (PM_REMOVE, False) @ [(PM_REMOVE, True)]))"
proof (intro conjI impI)
  assume e: "queue (wld s) = []"
  then show "loop_body env s =
        \<lparr>bGotMsg = False, msg = msg s,
         wld = deliver (record_event (CallPeekMessage PM_REMOVE False) (wld s))\<rparr>"
    by (simp add: loop_body_def PeekMessage_def)
  from e show "trace (wld (loop_body env s)) =
        trace (wld s) @ [CallPeekMessage PM_REMOVE False]"
    and "idle_iterations (trace (wld (loop_body env s))) = idle_iterations (trace (wld s)) + 1"
    by (simp_all add: loop_body_idle)
next
  assume a: "registerClassResult env \<noteq> 0 \<and> createWindowResult env \<noteq> 0 \<and> queue w0 = [] \<and>
        arrivals w0 = replicate N [] @ (q # b) # rest \<and> message q = WM_QUIT"
  define s0 where "s0 =
     \<lparr>bGotMsg = b0, msg = m0\<lparr>message := WM_NULL\<rparr>,
      wld = \<lparr>queue = next_batch w0, arrivals = tl (arrivals w0),
             trace = trace w0 @
               [CallRegisterClassEx, CallCreateWindowEx,
                CallShowWindow (createWindowResult env) nCmdShow,
                CallPeekMessage PM_NOREMOVE False]\<rparr>\<rparr>"
  have i: "wWinMain_init env nCmdShow b0 m0 w0 = Inr s0"
    using a by (simp add: init_ok s0_def)
  have g: "message (msg s0) \<noteq> WM_QUIT"
    by (simp add: s0_def)
  have "\<exists>s'. wWinMain_loop env s0 = Some s'
          \<and> trace (wld s') = trace (wld s0) @
               replicate N (CallPeekMessage PM_REMOVE False) @ retrieval_calls q"
  proof (cases N)
    case 0
    then have q0: "queue (wld s0) = q # b"
      using a by (simp add: s0_def next_batch_def)
    have "wWinMain_loop env s0 = Some (loop_body env s0)"
      using q0 a g by (simp add: sentinel_at_head)
    then show ?thesis
      using 0 by (simp add: loop_body_got [OF q0] retrieval_calls_def)
  next
    case (Suc n)
    then have q0: "queue (wld s0) = []"
      and a0: "arrivals (wld s0) = replicate n [] @ (q # b) # rest"
      using a by (simp_all add: s0_def next_batch_def)
    from idle_run_trace [OF q0 a0 _ g, of env] a Suc show ?thesis
      by auto
  qed
  then obtain s' where s': "wWinMain_loop env s0 = Some s'"
      "trace (wld s') = trace (wld s0) @
         replicate N (CallPeekMessage PM_REMOVE False) @ retrieval_calls q"
    by blast
  have r: "wWinMain env nCmdShow b0 m0 w0 = Some (0, wld s')"
    by (simp add: wWinMain_def i s'(1))
  have t: "trace (wld s') = trace w0 @
               [CallRegisterClassEx, CallCreateWindowEx,
                CallShowWindow (createWindowResult env) nCmdShow,
                CallPeekMessage PM_NOREMOVE False]
               @ replicate N (CallPeekMessage PM_REMOVE False) @ retrieval_calls q"
    by (simp add: s'(2) s0_def)
  have "idle_iterations (trace (wld s')) = idle_iterations (trace w0) + N"
    by (simp add: t)
  moreover have "peeks (trace (wld s')) = peeks (trace w0) @
               (PM_NOREMOVE, False) # replicate N (PM_REMOVE, False) @ [(PM_REMOVE, True)]"
    by (simp add: t)
  ultimately show "\<exists>w. wWinMain env nCmdShow b0 m0 w0 = Some (0, w)
           \<and> trace w = trace w0 @
               [CallRegisterClassEx, CallCreateWindowEx,
                CallShowWindow (createWindowResult env) nCmdShow,
                CallPeekMessage PM_NOREMOVE False]
               @ replicate N (CallPeekMessage PM_REMOVE False) @ retrieval_calls q
           \<and> idle_iterations (trace w) = idle_iterations (trace w0) + N
           \<and> peeks (trace w) = peeks (trace w0) @
               (PM_NOREMOVE, False) # replicate N (PM_REMOVE, False) @ [(PM_REMOVE, True)]"
    using r t by blast
qed

theorem idle_iteration_makes_no_call_witness:
  "trace (wld (loop_body ex_env
      \<lparr>bGotMsg = True, msg = ex_paint, wld = ex_world [] [[ex_click]]\<rparr>))
     = [CallPeekMessage PM_REMOVE False]
   \<and> (\<exists>w. wWinMain ex_env 1 False ex_junk (ex_world [] [[], [], [ex_quit]]) = Some (0, w)
          \<and> idle_iterations (trace w) = 2)"
proof -
  let ?s = "\<lparr>bGotMsg = True, msg = ex_paint, wld = ex_world [] [[ex_click]]\<rparr>"
  have h1: "queue (wld ?s) = []"
    by (simp add: ex_world_def)
  have r: "replicate 2 [] @ (ex_quit # []) # [] = [[], [], [ex_quit]]"
    by (simp add: numeral_2_eq_2)
  have h2: "registerClassResult ex_env \<noteq> 0 \<and> createWindowResult ex_env \<noteq> 0
      \<and> queue (ex_world [] [[], [], [ex_quit]]) = []
      \<and> arrivals (ex_world [] [[], [], [ex_quit]]) = replicate 2 [] @ (ex_quit # []) # []
      \<and> message ex_quit = WM_QUIT"
    unfolding r by (simp add: ex_env_def ex_world_def ex_quit_def)
  from idle_iteration_makes_no_call [of ?s ex_env "ex_world [] [[], [], [ex_quit]]" 2 ex_quit "[]" "[]" 1 False ex_junk]
    h1 h2
  show ?thesis
    by (auto simp: ex_world_def idle_iterations_def)
qed

text \<open>
  Claim C5, as stated, fails in its second case. An iteration that retrieves no message performs
  no unit of idle work: its result is \<^verbatim>\<open>bGotMsg = false\<close>, an unchanged \<^verbatim>\<open>msg\<close> and a world in
  which only the \<^verbatim>\<open>PeekMessage\<close> call has happened.
\<close>

theorem idle_iteration_performs_no_work:
  "loop_body ex_env \<lparr>bGotMsg = True, msg = ex_paint, wld = ex_world [] [[ex_click]]\<rparr>
     = \<lparr>bGotMsg = False, msg = ex_paint,
        wld = \<lparr>queue = [ex_click], arrivals = [],
               trace = [CallPeekMessage PM_REMOVE False]\<rparr>\<rparr>
   \<and> calls_while_idle False (trace (wld (loop_body ex_env
        \<lparr>bGotMsg = True, msg = ex_paint, wld = ex_world [] [[ex_click]]\<rparr>))) = []"
  by (simp add: run_defs)

text \<open>
  Claim C5, amended. One iteration does exactly one of two things. If a message \<open>m\<close> is pending,
  the iteration retrieves it and calls \<^verbatim>\<open>TranslateMessage\<close> and then \<^verbatim>\<open>DispatchMessage\<close> on it. If
  none is pending, it takes the \<^verbatim>\<open>else\<close> branch, which is empty: nothing is translated or
  dispatched and nothing else is done either. After either branch the loop goes on: it tests its
  condition in the new state, and when a \<^verbatim>\<open>WM_QUIT\<close> is retrieved in one of the following
  iterations, the loop returns from there.
\<close>

theorem loop_body_dispatch_or_nothing:
  "(case queue (wld s) of
      m # q \<Rightarrow>
        trace (wld (loop_body env s)) = trace (wld s) @
          [CallPeekMessage PM_REMOVE True, CallTranslateMessage m, CallDispatchMessage m]
          @ wndproc_calls m
        \<and> bGotMsg (loop_body env s) \<and> msg (loop_body env s) = m
        \<and> translated (trace (wld (loop_body env s))) = translated (trace (wld s)) @ [m]
        \<and> dispatched (trace (wld (loop_body env s))) = dispatched (trace (wld s)) @ [m]
        \<and> idle_iterations (trace (wld (loop_body env s))) = idle_iterations (trace (wld s))
    | [] \<Rightarrow>
        loop_body env s =
          \<lparr>bGotMsg = False, msg = msg s,
           wld = deliver (record_event (CallPeekMessage PM_REMOVE False) (wld s))\<rparr>
        \<and> trace (wld (loop_body env s)) = trace (wld s) @ [CallPeekMessage PM_REMOVE False]
        \<and> translated (trace (wld (loop_body env s))) = translated (trace (wld s))
        \<and> dispatched (trace (wld (loop_body env s))) = dispatched (trace (wld s))
        \<and> idle_iterations (trace (wld (loop_body env s)))
            = idle_iterations (trace (wld s)) + 1)
   \<and> (message (msg s) \<noteq> WM_QUIT \<longrightarrow>
        wWinMain_loop env s = wWinMain_loop env (loop_body env s))
   \<and> (message (msg s) \<noteq> WM_QUIT \<and>
        message (msg ((loop_body env ^^ k) (loop_body env s))) = WM_QUIT \<longrightarrow>
        (\<exists>j\<le>k. wWinMain_loop env s = Some ((loop_body env ^^ j) (loop_body env s))
           \<and> wWinMain_loop env (loop_body env s)
               = Some ((loop_body env ^^ j) (loop_body env s))))"
proof (intro conjI impI)
  show "case queue (wld s) of
      m # q \<Rightarrow>
        trace (wld (loop_body env s)) = trace (wld s) @
          [CallPeekMessage PM_REMOVE True, CallTranslateMessage m, CallDispatchMessage m]
          @ wndproc_calls m
        \<and> bGotMsg (loop_body env s) \<and> msg (loop_body env s) = m
        \<and> translated (trace (wld (loop_body env s))) = translated (trace (wld s)) @ [m]
        \<and> dispatched (trace (wld (loop_body env s))) = dispatched (trace (wld s)) @ [m]
        \<and> idle_iterations (trace (wld (loop_body env s))) = idle_iterations (trace (wld s))
    | [] \<Rightarrow>
        loop_body env s =
          \<lparr>bGotMsg = False, msg = msg s,
           wld = deliver (record_event (CallPeekMessage PM_REMOVE False) (wld s))\<rparr>
        \<and> trace (wld (loop_body env s)) = trace (wld s) @ [CallPeekMessage PM_REMOVE False]
        \<and> translated (trace (wld (loop_body env s))) = translated (trace (wld s))
        \<and> dispatched (trace (wld (loop_body env s))) = dispatched (trace (wld s))
        \<and> idle_iterations (trace (wld (loop_body env s)))
            = idle_iterations (trace (wld s)) + 1"
    by (simp add: loop_body_eq deliver_eq record_event_def next_batch_def split: list.split)
next
  assume "message (msg s) \<noteq> WM_QUIT"
  then show "wWinMain_loop env s = wWinMain_loop env (loop_body env s)"
    by (rule loop_continue)
next
  assume a: "message (msg s) \<noteq> WM_QUIT \<and>
        message (msg ((loop_body env ^^ k) (loop_body env s))) = WM_QUIT"
  then obtain j where j: "j \<le> k"
      "wWinMain_loop env (loop_body env s) = Some ((loop_body env ^^ j) (loop_body env s))"
    using loop_terminates [where env = env and k = k and s = "loop_body env s"] by blast
  moreover have "wWinMain_loop env s = wWinMain_loop env (loop_body env s)"
    using a by (simp add: loop_continue)
  ultimately show "\<exists>j\<le>k. wWinMain_loop env s = Some ((loop_body env ^^ j) (loop_body env s))
           \<and> wWinMain_loop env (loop_body env s)
               = Some ((loop_body env ^^ j) (loop_body env s))"
    by auto
qed

theorem loop_body_dispatch_or_nothing_witness:
  "dispatched (trace (wld (loop_body ex_env
      \<lparr>bGotMsg = False, msg = ex_paint, wld = ex_world [ex_click] [[ex_quit]]\<rparr>))) = [ex_click]
   \<and> idle_iterations (trace (wld (loop_body ex_env
      \<lparr>bGotMsg = False, msg = ex_paint, wld = ex_world [ex_click] [[ex_quit]]\<rparr>))) = 0
   \<and> trace (wld (loop_body ex_env
      \<lparr>bGotMsg = False, msg = ex_paint, wld = ex_world [] [[ex_quit]]\<rparr>))
      = [CallPeekMessage PM_REMOVE False]
   \<and> (\<exists>r. wWinMain_loop ex_env
          \<lparr>bGotMsg = False, msg = ex_paint, wld = ex_world [ex_click] [[ex_quit]]\<rparr> = Some r)
   \<and> (\<exists>r. wWinMain_loop ex_env
          \<lparr>bGotMsg = False, msg = ex_paint, wld = ex_world [] [[ex_quit]]\<rparr> = Some r)"
proof -
  let ?a = "\<lparr>bGotMsg = False, msg = ex_paint, wld = ex_world [ex_click] [[ex_quit]]\<rparr>"
  let ?b = "\<lparr>bGotMsg = False, msg = ex_paint, wld = ex_world [] [[ex_quit]]\<rparr>"
  have ga: "message (msg ?a) \<noteq> WM_QUIT \<and>
      message (msg ((loop_body ex_env ^^ 1) (loop_body ex_env ?a))) = WM_QUIT"
    by (simp add: run_defs)
  have gb: "message (msg ?b) \<noteq> WM_QUIT \<and>
      message (msg ((loop_body ex_env ^^ 1) (loop_body ex_env ?b))) = WM_QUIT"
    by (simp add: run_defs)
  note ca = loop_body_dispatch_or_nothing [where s = ?a and env = ex_env and k = 1]
  note cb = loop_body_dispatch_or_nothing [where s = ?b and env = ex_env and k = 1]
  from ca ga have "\<exists>r. wWinMain_loop ex_env ?a = Some r"
    by blast
  moreover from cb gb have "\<exists>r. wWinMain_loop ex_env ?b = Some r"
    by blast
  moreover from ca have "dispatched (trace (wld (loop_body ex_env ?a))) = [ex_click]"
    and "idle_iterations (trace (wld (loop_body ex_env ?a))) = 0"
    by (auto simp: ex_world_def)
  moreover from cb have "trace (wld (loop_body ex_env ?b)) = [CallPeekMessage PM_REMOVE False]"
    by (auto simp: ex_world_def)
  ultimately show ?thesis
    by blast
qed

text \<open>
  Claim C6. If \<^verbatim>\<open>RegisterClassEx\<close> returns 0, or \<^verbatim>\<open>CreateWindowEx\<close> returns \<^verbatim>\<open>NULL\<close>, the entry point
  returns \<open>-1\<close>, a negative \<^verbatim>\<open>int\<close>. The failed call was made once; after a failed registration no
  window is created. The queue is untouched: no \<^verbatim>\<open>PeekMessage\<close>, no translation, no dispatch and
  no idle branch.
\<close>

theorem failed_startup_returns_minus_one:
  assumes "registerClassResult env = 0 \<or> createWindowResult env = 0"
  shows "\<exists>w. wWinMain env nCmdShow b0 m0 w0 = Some (- 1, w)
       \<and> sint (- 1 :: cint) < 0
       \<and> trace w = trace w0 @
           (if registerClassResult env = 0 then [CallRegisterClassEx]
            else [CallRegisterClassEx, CallCreateWindowEx])
       \<and> queue w = queue w0 \<and> arrivals w = arrivals w0
       \<and> peeks (trace w) = peeks (trace w0)
       \<and> translated (trace w) = translated (trace w0)
       \<and> dispatched (trace w) = dispatched (trace w0)
       \<and> idle_iterations (trace w) = idle_iterations (trace w0)"
proof (cases "registerClassResult env = 0")
  case True
  then show ?thesis
    by (simp add: wWinMain_def init_no_class)
next
  case False
  with assms have "createWindowResult env = 0" by simp
  with False show ?thesis
    by (simp add: wWinMain_def init_no_window)
qed

theorem failed_startup_returns_minus_one_witness:
  "wWinMain ex_env_noclass 1 False ex_junk (ex_world [ex_paint, ex_quit] [[ex_click]])
     = Some (- 1, \<lparr>queue = [ex_paint, ex_quit], arrivals = [[ex_click]],
                   trace = [CallRegisterClassEx]\<rparr>)
   \<and> wWinMain ex_env_nowindow 1 False ex_junk (ex_world [ex_paint, ex_quit] [[ex_click]])
     = Some (- 1, \<lparr>queue = [ex_paint, ex_quit], arrivals = [[ex_click]],
                   trace = [CallRegisterClassEx, CallCreateWindowEx]\<rparr>)"
proof -
  have h1: "registerClassResult ex_env_noclass = 0 \<or> createWindowResult ex_env_noclass = 0"
    by (simp add: ex_env_noclass_def)
  have h2: "registerClassResult ex_env_nowindow = 0 \<or> createWindowResult ex_env_nowindow = 0"
    by (simp add: ex_env_nowindow_def)
  have n: "registerClassResult ex_env_nowindow \<noteq> 0"
    by (simp add: ex_env_nowindow_def ex_env_def)
  from failed_startup_returns_minus_one [OF h1, of 1 False ex_junk "ex_world [ex_paint, ex_quit] [[ex_click]]"]
       failed_startup_returns_minus_one [OF h2, of 1 False ex_junk "ex_world [ex_paint, ex_quit] [[ex_click]]"] n
  show ?thesis
    by (auto simp: ex_world_def ex_env_noclass_def)
qed

text \<open>
  Claim C7. Every message retrieval of the program is a call of \<^verbatim>\<open>PeekMessage\<close>, which returns
  whether or not a message is pending. Before the loop there is exactly one such call, with
  \<^verbatim>\<open>PM_NOREMOVE\<close>: it leaves every pending message in the queue. Each iteration makes exactly one
  such call, with \<^verbatim>\<open>PM_REMOVE\<close>: it takes the oldest pending message out, if there is one. With
  or without a message the iteration ends (\<open>bGotMsg\<close> tells which) and the loop goes on.
\<close>

theorem retrieval_is_peek_only:
  "(registerClassResult env \<noteq> 0 \<and> createWindowResult env \<noteq> 0 \<longrightarrow>
      (\<exists>s0. wWinMain_init env nCmdShow b0 m0 w0 = Inr s0
         \<and> peeks (trace (wld s0)) = peeks (trace w0) @ [(PM_NOREMOVE, queue w0 \<noteq> [])]
         \<and> queue (wld s0) = queue w0 @ next_batch w0))
   \<and> peeks (trace (wld (loop_body env s))) =
        peeks (trace (wld s)) @ [(PM_REMOVE, queue (wld s) \<noteq> [])]
   \<and> bGotMsg (loop_body env s) = (queue (wld s) \<noteq> [])
   \<and> (\<exists>posted. queue (wld (loop_body env s)) =
          tl (queue (wld s)) @ next_batch (wld s) @ posted)
   \<and> (message (msg s) \<noteq> WM_QUIT \<longrightarrow>
        wWinMain_loop env s = wWinMain_loop env (loop_body env s))"
  by (simp add: init_ok loop_body_eq loop_continue split: list.split)

theorem retrieval_is_peek_only_witness:
  "(\<exists>s0. wWinMain_init ex_env 1 False ex_junk (ex_world [ex_click] [[ex_paint]]) = Inr s0
       \<and> peeks (trace (wld s0)) = [(PM_NOREMOVE, True)]
       \<and> queue (wld s0) = [ex_click, ex_paint])
   \<and> peeks (trace (wld (loop_body ex_env
        \<lparr>bGotMsg = True, msg = ex_click, wld = ex_world [] [[ex_paint]]\<rparr>)))
      = [(PM_REMOVE, False)]
   \<and> wWinMain_loop ex_env \<lparr>bGotMsg = True, msg = ex_click, wld = ex_world [] [[ex_paint]]\<rparr>
      = wWinMain_loop ex_env (loop_body ex_env
          \<lparr>bGotMsg = True, msg = ex_click, wld = ex_world [] [[ex_paint]]\<rparr>)"
proof -
  let ?a = "\<lparr>bGotMsg = True, msg = ex_click, wld = ex_world [] [[ex_paint]]\<rparr>"
  have h1: "registerClassResult ex_env \<noteq> 0 \<and> createWindowResult ex_env \<noteq> 0"
    by (simp add: ex_env_def)
  have h2: "message (msg ?a) \<noteq> WM_QUIT"
    by (simp add: ex_click_def WM_QUIT_def)
  from retrieval_is_peek_only [where env = ex_env and nCmdShow = 1 and ?b0.0 = False and ?m0.0 = ex_junk
      and ?w0.0 = "ex_world [ex_click] [[ex_paint]]" and s = ?a] h1 h2
  show ?thesis
    by (auto simp: ex_world_def next_batch_def)
qed

text \<open>
  Claim C9. \<open>WndProc\<close> returns what \<^verbatim>\<open>DefWindowProc\<close> returns on the same four arguments. For
  \<^verbatim>\<open>WM_DESTROY\<close> it first calls \<^verbatim>\<open>PostQuitMessage(0)\<close>, which puts a \<^verbatim>\<open>WM_QUIT\<close> with exit code 0
  into the queue; for every other message it posts nothing. No other part of the program posts a
  quit message: an iteration of the loop does so only through the dispatch of a \<^verbatim>\<open>WM_DESTROY\<close>
  addressed to a window, and the code before the loop never does.
\<close>

theorem WndProc_default_and_quit_on_destroy:
  "fst (WndProc env h uMsg wp lp w) = defWindowProcResult env h uMsg wp lp
   \<and> WndProc env h uMsg wp lp w =
       DefWindowProc env h uMsg wp lp (if uMsg = WM_DESTROY then PostQuitMessage 0 w else w)
   \<and> (uMsg = WM_DESTROY \<longrightarrow>
        queue (snd (WndProc env h uMsg wp lp w)) = queue w @ [quit_msg 0]
        \<and> message (quit_msg 0) = WM_QUIT \<and> wParam (quit_msg 0) = 0
        \<and> trace (snd (WndProc env h uMsg wp lp w)) =
            trace w @ [CallPostQuitMessage 0, CallDefWindowProc h uMsg wp lp])
   \<and> (uMsg \<noteq> WM_DESTROY \<longrightarrow>
        queue (snd (WndProc env h uMsg wp lp w)) = queue w
        \<and> trace (snd (WndProc env h uMsg wp lp w)) = trace w @ [CallDefWindowProc h uMsg wp lp])
   \<and> quit_posts (trace (wld (loop_body env s))) =
        quit_posts (trace (wld s)) @
        (case queue (wld s) of
           [] \<Rightarrow> []
         | m # q \<Rightarrow> if hwnd m \<noteq> 0 \<and> message m = WM_DESTROY then [0] else [])
   \<and> (case wWinMain_init env nCmdShow b0 m0 w0 of
         Inl r \<Rightarrow> quit_posts (trace (snd r)) = quit_posts (trace w0)
       | Inr s0 \<Rightarrow> quit_posts (trace (wld s0)) = quit_posts (trace w0))"
proof -
  have "case wWinMain_init env nCmdShow b0 m0 w0 of
         Inl r \<Rightarrow> quit_posts (trace (snd r)) = quit_posts (trace w0)
       | Inr s0 \<Rightarrow> quit_posts (trace (wld s0)) = quit_posts (trace w0)"
  proof (cases "registerClassResult env = 0")
    case True
    then show ?thesis by (simp add: init_no_class)
  next
    case False
    then show ?thesis
      by (cases "createWindowResult env = 0") (simp_all add: init_no_window init_ok)
  qed
  then show ?thesis
    by (simp add: WndProc_eq loop_body_eq wndproc_calls_quit_posts quit_msg_def
        DefWindowProc_def PostQuitMessage_def record_event_def split: list.split)
qed

theorem WndProc_default_and_quit_on_destroy_witness:
  "WndProc ex_env 0x2A WM_DESTROY 0 0 (ex_world [ex_paint] [])
     = (0, \<lparr>queue = [ex_paint, quit_msg 0], arrivals = [],
             trace = [CallPostQuitMessage 0, CallDefWindowProc 0x2A WM_DESTROY 0 0]\<rparr>)
   \<and> WndProc ex_env 0x2A 0x000F 0 0 (ex_world [ex_paint] [])
     = (0, \<lparr>queue = [ex_paint], arrivals = [],
             trace = [CallDefWindowProc 0x2A 0x000F 0 0]\<rparr>)"
proof -
  have n: "(0x000F :: UINT) \<noteq> WM_DESTROY"
    by (simp add: WM_DESTROY_def)
  from WndProc_default_and_quit_on_destroy [where env = ex_env and h = "0x2A" and uMsg = WM_DESTROY and wp = 0 and lp = 0
        and w = "ex_world [ex_paint] []"]
       WndProc_default_and_quit_on_destroy [where env = ex_env and h = "0x2A" and uMsg = "0x000F" and wp = 0 and lp = 0
        and w = "ex_world [ex_paint] []"] n
  show ?thesis
    by (simp add: ex_world_def ex_env_def DefWindowProc_def PostQuitMessage_def
        record_event_def)
qed



end
